theory Spec2Isabelle
  imports Complex_Main "HOL-Library.Sublist"
begin

section \<open>JavaScript values\<close>

text \<open>
  The metadata of a log call is a JavaScript object whose values are strings or numbers
  (\<open>{ status_code: res.statusCode, route }\<close>, \<open>trace_id\<close>, \<open>span_id\<close>). An object is a
  map from property names to values; assigning a property is a map update.
\<close>

datatype jval = JStr string | JNum int

type_synonym metadata = "string \<rightharpoonup> jval"

text \<open>A string is truthy when it is present and not empty (\<open>undefined\<close> is \<open>None\<close>).\<close>

fun truthy :: "string option \<Rightarrow> bool" where
  "truthy None = False"
| "truthy (Some s) = (s \<noteq> [])"

section \<open>logger.js: the correlated logger\<close>

subsection \<open>The winston logger\<close>

text \<open>
  \<open>winston.createLogger({ level: "info", ..., transports: [Console] })\<close>. The state of the
  logger is the sequence of calls \<open>logger.log(level, message, meta)\<close> it has received, in
  order. The Console transport writes the records whose level passes the logger's
  configured level under winston's default (npm) level table; \<open>console_written\<close> is that
  selection.
\<close>

record log_record =
  level :: string
  message :: string
  meta :: metadata

type_synonym winston = "log_record list"

definition winston_log :: "string \<Rightarrow> string \<Rightarrow> metadata \<Rightarrow> winston \<Rightarrow> winston" where
  "winston_log lvl msg m w = w @ [\<lparr>level = lvl, message = msg, meta = m\<rparr>]"

definition npm_levels :: "string \<Rightarrow> nat option" where
  "npm_levels l =
     (if l = ''error'' then Some 0
      else if l = ''warn'' then Some 1
      else if l = ''info'' then Some 2
      else if l = ''http'' then Some 3
      else if l = ''verbose'' then Some 4
      else if l = ''debug'' then Some 5
      else if l = ''silly'' then Some 6
      else None)"

definition configured_level :: string where
  "configured_level = ''info''"

definition level_enabled :: "string \<Rightarrow> bool" where
  "level_enabled l =
     (case (npm_levels configured_level, npm_levels l) of
        (Some c, Some n) \<Rightarrow> n \<le> c
      | _ \<Rightarrow> False)"

definition console_written :: "winston \<Rightarrow> log_record list" where
  "console_written w = filter (\<lambda>r. level_enabled (level r)) w"

subsection \<open>The active span\<close>

text \<open>
  \<open>api.trace.getSpan(api.context.active())\<close> is the span active in the calling execution
  context, or \<open>undefined\<close>. The model takes it as an argument of the call: \<open>None\<close> when no
  span is active, otherwise the span's context.
\<close>

record span_context =
  traceId :: string
  spanId :: string

subsection \<open>log and the exported functions\<close>

text \<open>
  \<open>const log = (level, message, meta = {}) => { ... }\<close>. The metadata argument is an object
  or is omitted (\<open>None\<close>, for which the default parameter gives the empty object).
\<close>

definition log_js :: "span_context option \<Rightarrow> string \<Rightarrow> string \<Rightarrow> metadata option \<Rightarrow> winston \<Rightarrow> winston" where
  "log_js sp lvl msg meta_arg w =
     (let m = (case meta_arg of None \<Rightarrow> Map.empty | Some m0 \<Rightarrow> m0);
          m' = (case sp of
                  Some sc \<Rightarrow> m(''trace_id'' \<mapsto> JStr (traceId sc), ''span_id'' \<mapsto> JStr (spanId sc))
                | None \<Rightarrow> m)
      in winston_log lvl msg m' w)"

definition logger_info :: "span_context option \<Rightarrow> string \<Rightarrow> metadata option \<Rightarrow> winston \<Rightarrow> winston" where
  "logger_info sp msg meta_arg = log_js sp ''info'' msg meta_arg"

definition logger_error :: "span_context option \<Rightarrow> string \<Rightarrow> metadata option \<Rightarrow> winston \<Rightarrow> winston" where
  "logger_error sp msg meta_arg = log_js sp ''error'' msg meta_arg"

definition logger_warn :: "span_context option \<Rightarrow> string \<Rightarrow> metadata option \<Rightarrow> winston \<Rightarrow> winston" where
  "logger_warn sp msg meta_arg = log_js sp ''warn'' msg meta_arg"

definition logger_debug :: "span_context option \<Rightarrow> string \<Rightarrow> metadata option \<Rightarrow> winston \<Rightarrow> winston" where
  "logger_debug sp msg meta_arg = log_js sp ''debug'' msg meta_arg"

text \<open>The metadata the caller handed over: the object itself, or the empty object when omitted.\<close>

definition caller_metadata :: "metadata option \<Rightarrow> metadata" where
  "caller_metadata meta_arg = (case meta_arg of None \<Rightarrow> Map.empty | Some m0 \<Rightarrow> m0)"

section \<open>Numbers and strings\<close>

text \<open>
  \<open>String(n)\<close> and \<open>`${n}`\<close> for an integer \<open>n\<close>: the decimal digits, with a minus sign for a
  negative number. This is the text JavaScript gives for an integer below \<open>1e21\<close> in
  magnitude (from there on it uses exponent notation); it is applied to status codes and to
  the numbers that \<open>parseInt\<close> reads exactly, which are at most \<open>2^53\<close>.
\<close>

definition digit_char :: "nat \<Rightarrow> char" where
  "digit_char d = ''0123456789'' ! d"

fun string_of_nat :: "nat \<Rightarrow> string" where
  "string_of_nat n =
     (if n < 10 then [digit_char n] else string_of_nat (n div 10) @ [digit_char (n mod 10)])"

declare string_of_nat.simps [simp del]

definition js_String :: "int \<Rightarrow> string" where
  "js_String i = (if i < 0 then CHR ''-'' # string_of_nat (nat (- i)) else string_of_nat (nat i))"

text \<open>
  Strings are byte strings: a character outside ASCII stands as its UTF-8 bytes. The
  white space that \<open>parseInt\<close> skips (the white-space and line-terminator characters
  of the language) is: U+0009 to U+000D, U+0020, U+00A0, U+1680, U+2000 to U+200A, U+2028,
  U+2029, U+202F, U+205F, U+3000 and U+FEFF.
\<close>

definition str_whitespace :: "string list" where
  "str_whitespace =
     [[CHR 0x09], [CHR 0x0A], [CHR 0x0B], [CHR 0x0C], [CHR 0x0D], [CHR 0x20],
      [CHR 0xC2, CHR 0xA0],
      [CHR 0xE1, CHR 0x9A, CHR 0x80],
      [CHR 0xE2, CHR 0x80, CHR 0x80], [CHR 0xE2, CHR 0x80, CHR 0x81], [CHR 0xE2, CHR 0x80, CHR 0x82],
      [CHR 0xE2, CHR 0x80, CHR 0x83], [CHR 0xE2, CHR 0x80, CHR 0x84], [CHR 0xE2, CHR 0x80, CHR 0x85],
      [CHR 0xE2, CHR 0x80, CHR 0x86], [CHR 0xE2, CHR 0x80, CHR 0x87], [CHR 0xE2, CHR 0x80, CHR 0x88],
      [CHR 0xE2, CHR 0x80, CHR 0x89], [CHR 0xE2, CHR 0x80, CHR 0x8A],
      [CHR 0xE2, CHR 0x80, CHR 0xA8], [CHR 0xE2, CHR 0x80, CHR 0xA9],
      [CHR 0xE2, CHR 0x80, CHR 0xAF],
      [CHR 0xE2, CHR 0x81, CHR 0x9F],
      [CHR 0xE3, CHR 0x80, CHR 0x80],
      [CHR 0xEF, CHR 0xBB, CHR 0xBF]]"

text \<open>The number of bytes of the white-space character a string starts with, 0 if it starts with none.\<close>

definition whitespace_length :: "string \<Rightarrow> nat" where
  "whitespace_length s =
     (case find (\<lambda>w. prefix w s) str_whitespace of None \<Rightarrow> 0 | Some w \<Rightarrow> length w)"

fun trim_start :: "string \<Rightarrow> string" where
  "trim_start [] = []"
| "trim_start (c # cs) =
     (if whitespace_length (c # cs) = 0 then c # cs
      else trim_start (drop (whitespace_length (c # cs) - 1) cs))"

text \<open>
  The number a call of \<open>parseInt\<close> returns: NaN, or an integer. Up to \<open>2^53\<close> in magnitude
  the integer read is the number itself (\<open>Num\<close>). Beyond, the number is a double near the
  integer read, or Infinity; the model does not compute it (\<open>Rounded\<close>).
\<close>

datatype js_number = NaN | Num int | Rounded

text \<open>
  \<open>parseInt(x)\<close> with no radix, on a query parameter that is a string or absent
  (\<open>undefined\<close>, converted to the string \<open>undefined\<close>): leading white space is skipped, then
  an optional sign, then \<open>0x\<close> or \<open>0X\<close> selects radix 16, and the longest prefix of digits of
  the radix is read. No digit at all gives NaN.
\<close>

definition digit_value :: "char \<Rightarrow> nat" where
  "digit_value c =
     (let k = of_char c :: nat in
      if 48 \<le> k \<and> k \<le> 57 then k - 48
      else if 97 \<le> k \<and> k \<le> 122 then k - 87
      else if 65 \<le> k \<and> k \<le> 90 then k - 55
      else 36)"

definition parseInt :: "string option \<Rightarrow> js_number" where
  "parseInt arg =
     (let s = (case arg of None \<Rightarrow> ''undefined'' | Some s0 \<Rightarrow> s0);
          s1 = trim_start s;
          neg = (take 1 s1 = ''-'');
          s2 = (if take 1 s1 = ''-'' \<or> take 1 s1 = ''+'' then drop 1 s1 else s1);
          hex = (take 2 s2 = ''0x'' \<or> take 2 s2 = ''0X'');
          radix = (if hex then 16 else 10 :: nat);
          s3 = (if hex then drop 2 s2 else s2);
          ds = takeWhile (\<lambda>c. digit_value c < radix) s3;
          v = foldl (\<lambda>a c. a * int radix + int (digit_value c)) 0 ds
      in if ds = [] then NaN
         else if 9007199254740992 < v then Rounded
         else Num (if neg then - v else v))"

text \<open>\<open>parseInt(x) || d\<close>: NaN and 0 are falsy, every other number is truthy.\<close>

definition parseInt_or :: "string option \<Rightarrow> int \<Rightarrow> js_number" where
  "parseInt_or arg d =
     (case parseInt arg of
        NaN \<Rightarrow> Num d
      | Num n \<Rightarrow> if n = 0 then Num d else Num n
      | Rounded \<Rightarrow> Rounded)"

text \<open>\<open>a || b\<close> for a string \<open>a\<close> that may be \<open>undefined\<close>.\<close>

definition js_or :: "string option \<Rightarrow> string \<Rightarrow> string" where
  "js_or a b = (case a of None \<Rightarrow> b | Some s \<Rightarrow> if s \<noteq> [] then s else b)"

section \<open>app.js: the RED metrics\<close>

text \<open>
  The three prom-client metrics are declared with the label names \<open>method\<close>, \<open>route\<close>,
  \<open>status_code\<close>; a label set is the object literal the middleware builds, with its keys
  in that order. A counter holds one count per label set, \<open>inc(labels)\<close> adds one. A
  histogram is kept as the sequence of values observed per label set, from which its
  bucket counts, sum and count derive.
\<close>

type_synonym labels = "(string \<times> string) list"

definition inc :: "labels \<Rightarrow> (labels \<Rightarrow> nat) \<Rightarrow> (labels \<Rightarrow> nat)" where
  "inc l c = c(l := c l + 1)"

definition observe :: "labels \<Rightarrow> real \<Rightarrow> (labels \<Rightarrow> real list) \<Rightarrow> (labels \<Rightarrow> real list)" where
  "observe l v h = h(l := h l @ [v])"

record app_state =
  httpRequestDuration :: "labels \<Rightarrow> real list"
  httpRequestsTotal :: "labels \<Rightarrow> nat"
  httpErrorsTotal :: "labels \<Rightarrow> nat"
  logger :: winston

definition init_state :: app_state where
  "init_state = \<lparr>httpRequestDuration = (\<lambda>_. []), httpRequestsTotal = (\<lambda>_. 0),
                  httpErrorsTotal = (\<lambda>_. 0), logger = []\<rparr>"

subsection \<open>Requests and responses\<close>

text \<open>
  What the middleware and the simulation routes read of Express's \<open>req\<close> and \<open>res\<close>:
  \<open>req.method\<close>, \<open>req.route\<close> (set by the router once a route has matched, \<open>undefined\<close>
  before and for unmatched requests), \<open>req.path\<close>, the query parameters \<open>ms\<close> and \<open>code\<close>,
  and \<open>res.statusCode\<close>.
\<close>

record express_route =
  route_path :: string

record request =
  "method" :: string
  route :: "express_route option"
  path :: "string option"
  query_ms :: "string option"
  query_code :: "string option"

record response =
  statusCode :: int

subsection \<open>The metrics middleware\<close>

text \<open>
  \<open>const route = req.route && req.route.path ? req.route.path : req.path || "unknown"\<close>
  and the \<open>labels\<close> object of the \<open>finish\<close> callback.
\<close>

definition route_label :: "request \<Rightarrow> string" where
  "route_label req =
     (case route req of
        Some r \<Rightarrow> if route_path r \<noteq> [] then route_path r else js_or (path req) ''unknown''
      | None \<Rightarrow> js_or (path req) ''unknown'')"

definition request_labels :: "request \<Rightarrow> response \<Rightarrow> labels" where
  "request_labels req res =
     [(''method'', method req), (''route'', route_label req),
      (''status_code'', js_String (statusCode res))]"

text \<open>
  The callback registered on \<open>finish\<close>. \<open>start\<close> was read from \<open>process.hrtime.bigint()\<close>
  when the middleware ran; \<open>now\<close> is the reading when the callback runs, \<open>req\<close> and \<open>res\<close>
  are the request and response objects as they are then, \<open>sp\<close> is the span active then.
  \<open>Number(end - start) / 1e9\<close> is a double; the model keeps the exact quotient.
\<close>

definition on_finish ::
  "int \<Rightarrow> request \<Rightarrow> response \<Rightarrow> int \<Rightarrow> span_context option \<Rightarrow> app_state \<Rightarrow> app_state" where
  "on_finish start req res now sp st =
     (let durationSeconds = real_of_int (now - start) / 1000000000;
          lbls = request_labels req res;
          st1 = st\<lparr>httpRequestDuration := observe lbls durationSeconds (httpRequestDuration st)\<rparr>;
          st2 = st1\<lparr>httpRequestsTotal := inc lbls (httpRequestsTotal st1)\<rparr>;
          m = [''status_code'' \<mapsto> JNum (statusCode res), ''route'' \<mapsto> JStr (route_label req)]
      in if statusCode res \<ge> 500
         then (let st3 = st2\<lparr>httpErrorsTotal := inc lbls (httpErrorsTotal st2)\<rparr>
               in st3\<lparr>logger := logger_error sp
                         (''Request failed: '' @ method req @ '' '' @ route_label req) (Some m)
                         (logger st3)\<rparr>)
         else st2\<lparr>logger := logger_info sp
                     (''Request processed: '' @ method req @ '' '' @ route_label req) (Some m)
                     (logger st2)\<rparr>)"

text \<open>
  Event listeners of the response object. \<open>res.on(name, f)\<close> appends a listener; emitting
  an event runs, in order, the listeners registered under its name. An emission carries
  the request, the response, the clock and the active span as they are at that moment.
\<close>

record emission =
  em_req :: request
  em_res :: response
  em_now :: int
  em_span :: "span_context option"

type_synonym listener = "emission \<Rightarrow> app_state \<Rightarrow> app_state"

type_synonym listeners = "(string \<times> listener) list"

definition res_on :: "string \<Rightarrow> listener \<Rightarrow> listeners \<Rightarrow> listeners" where
  "res_on name f ls = ls @ [(name, f)]"

definition emit :: "listeners \<Rightarrow> string \<Rightarrow> emission \<Rightarrow> app_state \<Rightarrow> app_state" where
  "emit ls name e st = fold (\<lambda>(n, f) s. if n = name then f e s else s) ls st"

fun run_events :: "listeners \<Rightarrow> (string \<times> emission) list \<Rightarrow> app_state \<Rightarrow> app_state" where
  "run_events ls [] st = st"
| "run_events ls ((name, e) # evs) st = run_events ls evs (emit ls name e st)"

text \<open>
  \<open>app.use((req, res, next) => { const start = ...; res.on("finish", ...); next(); })\<close>:
  the middleware registers the callback under \<open>finish\<close> and nothing else, then passes on.
\<close>

definition metrics_middleware :: "int \<Rightarrow> listeners \<Rightarrow> listeners" where
  "metrics_middleware start ls =
     res_on ''finish'' (\<lambda>e. on_finish start (em_req e) (em_res e) (em_now e) (em_span e)) ls"

text \<open>
  The events Node's \<open>http.ServerResponse\<close> emits: \<open>finish\<close> once the response has been
  handed off completely, then \<open>close\<close>; for a connection that is terminated before the
  response completes, \<open>close\<close> alone.
\<close>

definition completed_lifecycle :: "emission \<Rightarrow> (string \<times> emission) list" where
  "completed_lifecycle e = [(''finish'', e), (''close'', e)]"

definition aborted_lifecycle :: "emission \<Rightarrow> (string \<times> emission) list" where
  "aborted_lifecycle e = [(''close'', e)]"

text \<open>
  A request that completes through the middleware: the middleware ran at clock \<open>start\<close>
  on a response without listeners, and the response went through the completed lifecycle.
\<close>

definition request_completes :: "int \<Rightarrow> emission \<Rightarrow> app_state \<Rightarrow> app_state" where
  "request_completes start e st = run_events (metrics_middleware start []) (completed_lifecycle e) st"

text \<open>A request that is aborted by a client disconnect before the response completes.\<close>

definition request_aborted :: "int \<Rightarrow> emission \<Rightarrow> app_state \<Rightarrow> app_state" where
  "request_aborted start e st = run_events (metrics_middleware start []) (aborted_lifecycle e) st"

subsection \<open>The simulation routes\<close>

text \<open>
  \<open>app.get("/simulate-error", ...)\<close>: the handler reads the code, logs at level warn and
  calls \<open>res.status(code).json(...)\<close>. The result is the code and the state after the log.
  For a code beyond \<open>2^53\<close> the text of the number in the message is not modelled (\<open>None\<close>).
\<close>

definition simulate_error ::
  "request \<Rightarrow> span_context option \<Rightarrow> app_state \<Rightarrow> (int \<times> app_state) option" where
  "simulate_error req sp st =
     (case parseInt_or (query_code req) 500 of
        Num code \<Rightarrow>
          Some (code,
                st\<lparr>logger := logger_warn sp (''Simulating error with code '' @ js_String code) None
                                 (logger st)\<rparr>)
      | _ \<Rightarrow> None)"

text \<open>
  The status of the response that \<open>res.status(code).json(...)\<close> leads to. A code from 100
  to 999 is the status sent. Any other code is refused with a RangeError, by \<open>res.status\<close>
  of Express 5 or, under Express 4, by Node when the head is written; Express's error
  handling then answers with status 500. Under Express 4, Node first reduces the code
  to 32 bits, so for a code outside 32 bits the status depends on the version of Express
  and is not modelled (\<open>None\<close>).
\<close>

definition sent_status :: "int \<Rightarrow> int option" where
  "sent_status code =
     (if 100 \<le> code \<and> code \<le> 999 then Some code
      else if - 2147483648 \<le> code \<and> code \<le> 2147483647 then Some 500
      else None)"

text \<open>
  A request \<open>GET /simulate-error\<close> served to completion: the middleware runs at clock
  \<open>start\<close>, the router matches the route, the handler runs, and the response finishes at
  clock \<open>now\<close> with the status sent. \<open>sp\<close> is the span active in the handler, \<open>sp'\<close> the
  one active when \<open>finish\<close> is emitted.
\<close>

definition serve_simulate_error ::
  "request \<Rightarrow> int \<Rightarrow> int \<Rightarrow> span_context option \<Rightarrow> span_context option \<Rightarrow> app_state
     \<Rightarrow> app_state option" where
  "serve_simulate_error req start now sp sp' st =
     (let ls = metrics_middleware start [];
          req1 = req\<lparr>route := Some \<lparr>route_path = ''/simulate-error''\<rparr>\<rparr>
      in case simulate_error req1 sp st of
           None \<Rightarrow> None
         | Some (code, st1) \<Rightarrow>
             (case sent_status code of
                None \<Rightarrow> None
              | Some sc \<Rightarrow>
                  Some (run_events ls
                    (completed_lifecycle
                       \<lparr>em_req = req1, em_res = \<lparr>statusCode = sc\<rparr>, em_now = now, em_span = sp'\<rparr>)
                    st1)))"

text \<open>
  \<open>app.get("/simulate-latency", async ...)\<close>: the handler reads the delay, logs at level
  info, waits for the timer and then calls \<open>res.status(200).json(...)\<close>. The result is the
  delay handed to \<open>setTimeout\<close> and the state after the log. For a delay beyond \<open>2^53\<close>
  the text of the number in the message is not modelled (\<open>None\<close>).
\<close>

definition simulate_latency ::
  "request \<Rightarrow> span_context option \<Rightarrow> app_state \<Rightarrow> (int \<times> app_state) option" where
  "simulate_latency req sp st =
     (case parseInt_or (query_ms req) 500 of
        Num delay \<Rightarrow>
          Some (delay,
                st\<lparr>logger := logger_info sp (''Simulating latency of '' @ js_String delay @ ''ms'') None
                                 (logger st)\<rparr>)
      | _ \<Rightarrow> None)"

definition serve_simulate_latency ::
  "request \<Rightarrow> int \<Rightarrow> int \<Rightarrow> span_context option \<Rightarrow> span_context option \<Rightarrow> app_state
     \<Rightarrow> app_state option" where
  "serve_simulate_latency req start now sp sp' st =
     (let ls = metrics_middleware start [];
          req1 = req\<lparr>route := Some \<lparr>route_path = ''/simulate-latency''\<rparr>\<rparr>
      in case simulate_latency req1 sp st of
           None \<Rightarrow> None
         | Some (delay, st1) \<Rightarrow>
             Some (run_events ls
               (completed_lifecycle
                  \<lparr>em_req = req1, em_res = \<lparr>statusCode = 200\<rparr>, em_now = now, em_span = sp'\<rparr>)
               st1))"

section \<open>otel.js: the traces endpoint\<close>

text \<open>
  \<open>resolveTracesUrl\<close> reads two environment variables, each a string or unset.
  \<open>/\/v1\/traces\/?$/.test(base)\<close> holds when \<open>base\<close> ends in \<open>/v1/traces\<close> or in
  \<open>/v1/traces/\<close>; \<open>base.replace(/\/+$/, "")\<close> removes the slashes at the end of \<open>base\<close>.
\<close>

definition ends_in_traces :: "string \<Rightarrow> bool" where
  "ends_in_traces base = (suffix ''/v1/traces'' base \<or> suffix ''/v1/traces/'' base)"

definition strip_trailing_slashes :: "string \<Rightarrow> string" where
  "strip_trailing_slashes base = rev (dropWhile (\<lambda>c. c = CHR ''/'') (rev base))"

text \<open>
  \<open>const base = process.env.OTEL_EXPORTER_OTLP_TRACES_ENDPOINT ||
  process.env.OTEL_EXPORTER_OTLP_ENDPOINT || "http://jaeger:4318"\<close>.
\<close>

definition otlp_base :: "string option \<Rightarrow> string option \<Rightarrow> string" where
  "otlp_base traces_endpoint otlp_endpoint =
     js_or traces_endpoint (js_or otlp_endpoint ''http://jaeger:4318'')"

definition resolveTracesUrl :: "string option \<Rightarrow> string option \<Rightarrow> string" where
  "resolveTracesUrl traces_endpoint otlp_endpoint =
     (let base = otlp_base traces_endpoint otlp_endpoint
      in if ends_in_traces base then base
         else strip_trailing_slashes base @ ''/v1/traces'')"

section \<open>Example inputs\<close>

definition example_request :: request where
  "example_request =
     \<lparr>method = ''GET'', route = None, path = Some ''/missing'', query_ms = None, query_code = None\<rparr>"

text \<open>A request \<open>GET /simulate-latency\<close> whose client disconnects while the handler waits.\<close>

definition aborted_emission :: emission where
  "aborted_emission =
     \<lparr>em_req = \<lparr>method = ''GET'', route = Some \<lparr>route_path = ''/simulate-latency''\<rparr>,
                 path = Some ''/simulate-latency'', query_ms = Some ''500'', query_code = None\<rparr>,
      em_res = \<lparr>statusCode = 200\<rparr>, em_now = 120000000, em_span = None\<rparr>"

definition example_error_request :: request where
  "example_error_request =
     \<lparr>method = ''GET'', route = None, path = Some ''/simulate-error'', query_ms = None,
      query_code = Some ''500''\<rparr>"

definition example_error_request_default :: request where
  "example_error_request_default =
     \<lparr>method = ''GET'', route = None, path = Some ''/simulate-error'', query_ms = None,
      query_code = None\<rparr>"

section \<open>The correlated logger\<close>

lemma log_js_appends:
  "log_js sp lvl msg meta_arg w =
     w @ [\<lparr>level = lvl, message = msg,
            meta = (case sp of
                      Some sc \<Rightarrow> (caller_metadata meta_arg)
                                   (''trace_id'' \<mapsto> JStr (traceId sc), ''span_id'' \<mapsto> JStr (spanId sc))
                    | None \<Rightarrow> caller_metadata meta_arg)\<rparr>]"
  by (simp add: log_js_def winston_log_def caller_metadata_def Let_def split: option.splits)

text \<open>
  Claim C2. Every call of \<open>log\<close> hands exactly one record to the winston logger, with the
  level and message of the call. When a span is active, the record's metadata is the
  caller's metadata with \<open>trace_id\<close> and \<open>span_id\<close> set to the identifiers of that span (they
  overwrite entries of the same name, every other entry is kept). When no span is active,
  the record's metadata is the caller's metadata, unchanged; the call has no failing branch.
\<close>

theorem log_correlates_metadata:
  "log_js (Some sc) lvl msg meta_arg w =
     w @ [\<lparr>level = lvl, message = msg,
            meta = caller_metadata meta_arg ++ [''trace_id'' \<mapsto> JStr (traceId sc), ''span_id'' \<mapsto> JStr (spanId sc)]\<rparr>]
   \<and> log_js None lvl msg meta_arg w =
     w @ [\<lparr>level = lvl, message = msg, meta = caller_metadata meta_arg\<rparr>]"
  by (simp add: log_js_appends)

text \<open>
  Claim C7. The level is a tag that is passed through: each of the four exported functions
  \<open>debug\<close>, \<open>info\<close>, \<open>warn\<close> and \<open>error\<close> hands exactly one record to the winston
  logger, the sink that \<open>log\<close> wraps, with its own level as the tag, the message of the call
  and the correlated metadata; \<open>log\<close> does so for any level, with no branch on it.
\<close>

theorem log_levels_pass_through:
  "logger_debug sp msg m w =
     w @ [\<lparr>level = ''debug'', message = msg,
            meta = caller_metadata m ++
                   (case sp of
                      Some sc \<Rightarrow> [''trace_id'' \<mapsto> JStr (traceId sc), ''span_id'' \<mapsto> JStr (spanId sc)]
                    | None \<Rightarrow> Map.empty)\<rparr>]
   \<and> logger_info sp msg m w =
     w @ [\<lparr>level = ''info'', message = msg,
            meta = caller_metadata m ++
                   (case sp of
                      Some sc \<Rightarrow> [''trace_id'' \<mapsto> JStr (traceId sc), ''span_id'' \<mapsto> JStr (spanId sc)]
                    | None \<Rightarrow> Map.empty)\<rparr>]
   \<and> logger_warn sp msg m w =
     w @ [\<lparr>level = ''warn'', message = msg,
            meta = caller_metadata m ++
                   (case sp of
                      Some sc \<Rightarrow> [''trace_id'' \<mapsto> JStr (traceId sc), ''span_id'' \<mapsto> JStr (spanId sc)]
                    | None \<Rightarrow> Map.empty)\<rparr>]
   \<and> logger_error sp msg m w =
     w @ [\<lparr>level = ''error'', message = msg,
            meta = caller_metadata m ++
                   (case sp of
                      Some sc \<Rightarrow> [''trace_id'' \<mapsto> JStr (traceId sc), ''span_id'' \<mapsto> JStr (spanId sc)]
                    | None \<Rightarrow> Map.empty)\<rparr>]
   \<and> length (log_js sp lvl msg m w) = length w + 1
   \<and> level (last (log_js sp lvl msg m w)) = lvl"
  by (simp add: logger_debug_def logger_info_def logger_warn_def logger_error_def log_js_appends
        split: option.splits)

text \<open>
  Filtering is the winston logger's own: created with level \<open>info\<close>, its Console transport
  writes the records of level error, warn and info it receives and not those of level debug.
\<close>

lemma console_level_threshold:
  "level_enabled ''error'' \<and> level_enabled ''warn'' \<and> level_enabled ''info'' \<and> \<not> level_enabled ''debug''"
  by (simp add: level_enabled_def npm_levels_def configured_level_def)

section \<open>The metrics middleware\<close>

lemma emit_middleware:
  "emit (metrics_middleware start []) name e st =
     (if name = ''finish'' then on_finish start (em_req e) (em_res e) (em_now e) (em_span e) st else st)"
  by (simp add: emit_def metrics_middleware_def res_on_def)

lemma run_events_middleware:
  "run_events (metrics_middleware start []) evs st =
     fold (\<lambda>e. on_finish start (em_req e) (em_res e) (em_now e) (em_span e))
       (map snd (filter (\<lambda>p. fst p = ''finish'') evs)) st"
  by (induction evs arbitrary: st) (auto simp: emit_middleware)

lemma request_completes_on_finish:
  "request_completes start e st = on_finish start (em_req e) (em_res e) (em_now e) (em_span e) st"
  by (simp add: request_completes_def completed_lifecycle_def emit_middleware)

lemma request_aborted_unchanged: "request_aborted start e st = st"
  by (simp add: request_aborted_def aborted_lifecycle_def emit_middleware)

lemma on_finish_duration:
  "httpRequestDuration (on_finish start req res now sp st) =
     (httpRequestDuration st)(request_labels req res :=
        httpRequestDuration st (request_labels req res) @ [real_of_int (now - start) / 1000000000])"
  by (simp add: on_finish_def observe_def Let_def)

lemma on_finish_requests:
  "httpRequestsTotal (on_finish start req res now sp st) =
     (httpRequestsTotal st)(request_labels req res := httpRequestsTotal st (request_labels req res) + 1)"
  by (simp add: on_finish_def inc_def Let_def)

lemma on_finish_errors:
  "httpErrorsTotal (on_finish start req res now sp st) =
     (if 500 \<le> statusCode res
      then (httpErrorsTotal st)(request_labels req res := httpErrorsTotal st (request_labels req res) + 1)
      else httpErrorsTotal st)"
  by (simp add: on_finish_def inc_def Let_def)

lemma on_finish_logger:
  "logger (on_finish start req res now sp st) =
     logger st @
       [\<lparr>level = (if 500 \<le> statusCode res then ''error'' else ''info''),
         message = (if 500 \<le> statusCode res then ''Request failed: '' else ''Request processed: '')
                     @ method req @ '' '' @ route_label req,
         meta = (case sp of
                   Some sc \<Rightarrow> [''status_code'' \<mapsto> JNum (statusCode res), ''route'' \<mapsto> JStr (route_label req),
                               ''trace_id'' \<mapsto> JStr (traceId sc), ''span_id'' \<mapsto> JStr (spanId sc)]
                 | None \<Rightarrow> [''status_code'' \<mapsto> JNum (statusCode res), ''route'' \<mapsto> JStr (route_label req)])\<rparr>]"
  by (simp add: on_finish_def Let_def logger_error_def logger_info_def log_js_appends caller_metadata_def
           split: option.splits)

text \<open>
  Claim C1. For a request that completes through the middleware, with the label set
  \<open>{method, route, status_code}\<close> built from the request's method, the derived route label
  and the final status code as a string: the histogram \<open>http_request_duration_seconds\<close>
  receives exactly one more observation under that label set (the elapsed seconds) and
  none under any other; the counter \<open>http_requests_total\<close> grows by exactly one under that
  label set and is unchanged under any other; the counter \<open>http_errors_total\<close> grows by one
  under that label set when the status code is at least 500 and is unchanged otherwise,
  so it is incremented if and only if the status code is at least 500.
\<close>

theorem red_metrics_recorded_once:
  "(let lbls = request_labels (em_req e) (em_res e); st' = request_completes start e st in
      lbls = [(''method'', method (em_req e)), (''route'', route_label (em_req e)),
              (''status_code'', js_String (statusCode (em_res e)))]
    \<and> httpRequestDuration st' =
        (httpRequestDuration st)(lbls := httpRequestDuration st lbls @ [real_of_int (em_now e - start) / 1000000000])
    \<and> httpRequestsTotal st' = (httpRequestsTotal st)(lbls := httpRequestsTotal st lbls + 1)
    \<and> httpErrorsTotal st' =
        (if 500 \<le> statusCode (em_res e) then (httpErrorsTotal st)(lbls := httpErrorsTotal st lbls + 1)
         else httpErrorsTotal st)
    \<and> ((httpErrorsTotal st' lbls = httpErrorsTotal st lbls + 1) = (500 \<le> statusCode (em_res e))))"
  unfolding Let_def request_completes_on_finish
  by (simp add: on_finish_duration on_finish_requests on_finish_errors) (simp add: request_labels_def)

text \<open>
  Claim C3, as amended. The terminal transition of the middleware (duration observation,
  counter increments, terminal log) is the \<open>finish\<close> callback, and it runs once for each
  \<open>finish\<close> event of the response and for no other event. A request whose response
  completes emits \<open>finish\<close> once, whatever the handler did, and the transition fires exactly
  once. A request that is aborted by a client disconnect before the response completes
  emits \<open>close\<close> only, and the transition does not fire: the state is unchanged. The
  middleware itself opens and closes no span.
\<close>

theorem terminal_transition_per_finish_event:
  "request_completes start e st = on_finish start (em_req e) (em_res e) (em_now e) (em_span e) st
   \<and> request_aborted start e st = st
   \<and> run_events (metrics_middleware start []) evs st =
       fold (\<lambda>e. on_finish start (em_req e) (em_res e) (em_now e) (em_span e))
         (map snd (filter (\<lambda>p. fst p = ''finish'') evs)) st"
  by (simp add: request_completes_on_finish request_aborted_unchanged run_events_middleware)

text \<open>
  Claim C3 as stated fails on an aborted request: for \<open>GET /simulate-latency\<close> with the
  client disconnecting during the wait, no terminal log is written, the request is not
  counted and no duration is observed, where one terminal transition would have counted
  one request.
\<close>

theorem aborted_request_records_nothing:
  "logger (request_aborted 0 aborted_emission init_state) = []
   \<and> httpRequestsTotal (request_aborted 0 aborted_emission init_state)
        [(''method'', ''GET''), (''route'', ''/simulate-latency''), (''status_code'', ''200'')] = 0
   \<and> httpRequestDuration (request_aborted 0 aborted_emission init_state)
        [(''method'', ''GET''), (''route'', ''/simulate-latency''), (''status_code'', ''200'')] = []
   \<and> httpRequestsTotal
        (on_finish 0 (em_req aborted_emission) (em_res aborted_emission) (em_now aborted_emission)
           (em_span aborted_emission) init_state)
        [(''method'', ''GET''), (''route'', ''/simulate-latency''), (''status_code'', ''200'')] = 1"
proof -
  have "js_String 200 = ''200''"
    by code_simp
  then show ?thesis
    by (simp add: request_aborted_unchanged on_finish_requests init_state_def aborted_emission_def
          request_labels_def route_label_def)
qed

text \<open>
  Claim C4. A request that completes through the middleware adds exactly one record to
  what the winston logger receives, the terminal log line: its level is \<open>error\<close> when the
  final status code is at least 500 and \<open>info\<close> otherwise; its message names the method and
  the route label; its metadata holds the status code and the route label, and the
  identifiers of the active span if there is one. Both levels pass the logger's configured
  level, so exactly one more line is written to the console.
\<close>

theorem terminal_log_level:
  "logger (request_completes start e st) =
     logger st @
       [\<lparr>level = (if 500 \<le> statusCode (em_res e) then ''error'' else ''info''),
         message = (if 500 \<le> statusCode (em_res e) then ''Request failed: '' else ''Request processed: '')
                     @ method (em_req e) @ '' '' @ route_label (em_req e),
         meta = [''status_code'' \<mapsto> JNum (statusCode (em_res e)), ''route'' \<mapsto> JStr (route_label (em_req e))]
                ++ (case em_span e of
                      Some sc \<Rightarrow> [''trace_id'' \<mapsto> JStr (traceId sc), ''span_id'' \<mapsto> JStr (spanId sc)]
                    | None \<Rightarrow> Map.empty)\<rparr>]
   \<and> length (console_written (logger (request_completes start e st))) =
       length (console_written (logger st)) + 1"
  by (simp add: request_completes_on_finish on_finish_logger console_written_def level_enabled_def
        npm_levels_def configured_level_def split: option.splits)

text \<open>
  Claim C5. The route label is the pattern of the matched route when \<open>req.route\<close> is set and
  its pattern is a non-empty string; otherwise it is the raw request path when that is a
  non-empty string; otherwise it is the literal \<open>unknown\<close>. This label is the \<open>route\<close> entry
  of the label set of the metrics and the \<open>route\<close> entry of the metadata of the terminal log.
\<close>

theorem route_label_fallback:
  "(route req = Some r \<longrightarrow> route_path r \<noteq> [] \<longrightarrow> route_label req = route_path r)
   \<and> ((\<forall>r. route req = Some r \<longrightarrow> route_path r = []) \<longrightarrow> path req = Some p \<longrightarrow> p \<noteq> []
        \<longrightarrow> route_label req = p)
   \<and> ((\<forall>r. route req = Some r \<longrightarrow> route_path r = []) \<longrightarrow> \<not> truthy (path req)
        \<longrightarrow> route_label req = ''unknown'')
   \<and> map_of (request_labels req res) ''route'' = Some (route_label req)
   \<and> meta (last (logger (on_finish start req res now sp st))) ''route'' = Some (JStr (route_label req))"
  by (cases "path req")
     (auto simp: route_label_def js_or_def request_labels_def on_finish_logger split: option.splits)

theorem route_label_fallback_witness:
  "route_label (example_request\<lparr>route := Some \<lparr>route_path = ''/users/:id''\<rparr>\<rparr>) = ''/users/:id''
   \<and> route_label example_request = ''/missing''
   \<and> route_label (example_request\<lparr>path := None\<rparr>) = ''unknown''"
  using route_label_fallback [of "example_request\<lparr>route := Some \<lparr>route_path = ''/users/:id''\<rparr>\<rparr>" "\<lparr>route_path = ''/users/:id''\<rparr>"]
        route_label_fallback [of example_request _ "''/missing''"]
        route_label_fallback [of "example_request\<lparr>path := None\<rparr>"]
  by (simp add: example_request_def)

section \<open>The simulated-error route\<close>

lemma js_String_500: "js_String 500 = ''500''"
  by code_simp

lemma parseInt_or_500: "parseInt_or (Some ''500'') 500 = Num 500"
  by code_simp

lemma parseInt_or_absent: "parseInt_or None 500 = Num 500"
  by code_simp

lemma sent_status_500: "sent_status 500 = Some 500"
  by (simp add: sent_status_def)

lemma serve_simulate_error_500:
  assumes "parseInt_or (query_code req) 500 = Num 500"
  shows "serve_simulate_error req start now sp sp' st =
     Some (on_finish start (req\<lparr>route := Some \<lparr>route_path = ''/simulate-error''\<rparr>\<rparr>)
             \<lparr>statusCode = 500\<rparr> now sp'
             (st\<lparr>logger := logger_warn sp ''Simulating error with code 500'' None (logger st)\<rparr>))"
  using assms
  by (simp add: serve_simulate_error_def simulate_error_def Let_def sent_status_500 js_String_500
        request_completes_on_finish [unfolded request_completes_def])

text \<open>
  Claim C6. A \<open>GET\<close> request to \<open>/simulate-error\<close> that asks for code 500 (the query
  parameter \<open>code\<close> is \<open>500\<close>, or is absent, which defaults to 500) is served to completion
  with status 500, and then: the counters \<open>http_requests_total\<close> and \<open>http_errors_total\<close>
  have each grown by exactly one under the labels
  \<open>{method: "GET", route: "/simulate-error", status_code: "500"}\<close> and are unchanged under
  every other label set; the request has added two log records, the handler's of level
  warn and then the terminal one of level error.
\<close>

theorem simulate_error_500_counts:
  assumes "method req = ''GET''"
    and "query_code req = Some ''500'' \<or> query_code req = None"
  shows "\<exists>st'. serve_simulate_error req start now sp sp' st = Some st'
       \<and> httpRequestsTotal st' =
           (httpRequestsTotal st)
             ([(''method'', ''GET''), (''route'', ''/simulate-error''), (''status_code'', ''500'')] :=
                httpRequestsTotal st
                  [(''method'', ''GET''), (''route'', ''/simulate-error''), (''status_code'', ''500'')] + 1)
       \<and> httpErrorsTotal st' =
           (httpErrorsTotal st)
             ([(''method'', ''GET''), (''route'', ''/simulate-error''), (''status_code'', ''500'')] :=
                httpErrorsTotal st
                  [(''method'', ''GET''), (''route'', ''/simulate-error''), (''status_code'', ''500'')] + 1)
       \<and> map level (drop (length (logger st)) (logger st')) = [''warn'', ''error'']
       \<and> map message (drop (length (logger st)) (logger st')) =
           [''Simulating error with code 500'', ''Request failed: GET /simulate-error'']"
proof -
  from assms(2) have "parseInt_or (query_code req) 500 = Num 500"
    by (auto simp: parseInt_or_500 parseInt_or_absent)
  then show ?thesis
    using assms(1)
    by (simp add: serve_simulate_error_500 on_finish_requests on_finish_errors on_finish_logger
          request_labels_def route_label_def js_String_500 logger_warn_def log_js_appends)
qed

theorem simulate_error_500_counts_witness:
  "(\<exists>st'. serve_simulate_error example_error_request 0 2000000 None None init_state = Some st'
     \<and> httpRequestsTotal st'
         [(''method'', ''GET''), (''route'', ''/simulate-error''), (''status_code'', ''500'')] = 1
     \<and> httpErrorsTotal st'
         [(''method'', ''GET''), (''route'', ''/simulate-error''), (''status_code'', ''500'')] = 1
     \<and> map level (logger st') = [''warn'', ''error''])
   \<and> (\<exists>st'. serve_simulate_error example_error_request_default 0 2000000 None None init_state = Some st'
     \<and> httpRequestsTotal st'
         [(''method'', ''GET''), (''route'', ''/simulate-error''), (''status_code'', ''500'')] = 1
     \<and> httpErrorsTotal st'
         [(''method'', ''GET''), (''route'', ''/simulate-error''), (''status_code'', ''500'')] = 1
     \<and> map level (logger st') = [''warn'', ''error''])"
proof -
  have m: "method example_error_request = ''GET''"
    by (simp add: example_error_request_def)
  have c: "query_code example_error_request = Some ''500'' \<or> query_code example_error_request = None"
    by (simp add: example_error_request_def)
  have m': "method example_error_request_default = ''GET''"
    by (simp add: example_error_request_default_def)
  have c': "query_code example_error_request_default = Some ''500'' \<or> query_code example_error_request_default = None"
    by (simp add: example_error_request_default_def)
  have 1: "\<exists>st'. serve_simulate_error example_error_request 0 2000000 None None init_state = Some st'
     \<and> httpRequestsTotal st'
         [(''method'', ''GET''), (''route'', ''/simulate-error''), (''status_code'', ''500'')] = 1
     \<and> httpErrorsTotal st'
         [(''method'', ''GET''), (''route'', ''/simulate-error''), (''status_code'', ''500'')] = 1
     \<and> map level (logger st') = [''warn'', ''error'']"
    using simulate_error_500_counts [OF m c, of 0 2000000 None None init_state]
    by (elim exE conjE, intro exI conjI) (simp_all add: init_state_def)
  have 2: "\<exists>st'. serve_simulate_error example_error_request_default 0 2000000 None None init_state = Some st'
     \<and> httpRequestsTotal st'
         [(''method'', ''GET''), (''route'', ''/simulate-error''), (''status_code'', ''500'')] = 1
     \<and> httpErrorsTotal st'
         [(''method'', ''GET''), (''route'', ''/simulate-error''), (''status_code'', ''500'')] = 1
     \<and> map level (logger st') = [''warn'', ''error'']"
    using simulate_error_500_counts [OF m' c', of 0 2000000 None None init_state]
    by (elim exE conjE, intro exI conjI) (simp_all add: init_state_def)
  from 1 2 show ?thesis
    by (rule conjI)
qed

text \<open>
  The parser on other query strings: leading white space is skipped, also outside ASCII
  (here U+00A0 before \<open>404\<close>); a code that is no valid status is answered with 500.
\<close>

lemma parseInt_examples:
  "parseInt (Some [CHR 0xC2, CHR 0xA0, CHR ''4'', CHR ''0'', CHR ''4'']) = Num 404"
  "parseInt (Some ''  -0x1f'') = Num (- 31)"
  "parseInt (Some ''12px'') = Num 12"
  "parseInt (Some ''abc'') = NaN"
  "parseInt (Some ''9007199254740993'') = Rounded"
  by code_simp+

lemma sent_status_examples:
  "sent_status 404 = Some 404" "sent_status 99 = Some 500" "sent_status 4294967700 = None"
  by (simp_all add: sent_status_def)

section \<open>The simulated-latency route\<close>

lemma js_String_200: "js_String 200 = ''200''"
  by code_simp

lemma serve_simulate_latency_500:
  assumes "parseInt_or (query_ms req) 500 = Num 500"
  shows "serve_simulate_latency req start now sp sp' st =
     Some (on_finish start (req\<lparr>route := Some \<lparr>route_path = ''/simulate-latency''\<rparr>\<rparr>)
             \<lparr>statusCode = 200\<rparr> now sp'
             (st\<lparr>logger := logger_info sp ''Simulating latency of 500ms'' None (logger st)\<rparr>))"
  using assms
  by (simp add: serve_simulate_latency_def simulate_latency_def Let_def js_String_500
        request_completes_on_finish [unfolded request_completes_def])

text \<open>
  What the code decides of the scenario of claim C9, a \<open>GET\<close> request to
  \<open>/simulate-latency\<close> with a delay of 500 (the query parameter \<open>ms\<close> is \<open>500\<close> or absent)
  served to completion: one observation under the labels
  \<open>{method: "GET", route: "/simulate-latency", status_code: "200"}\<close>, whose value is the
  difference of the two clock readings in seconds, and an info-level record with the
  message \<open>Simulating latency of 500ms\<close>, which carries a \<open>trace_id\<close> exactly when a span is
  active in the handler. The value is at least half a second exactly when the clock
  readings are at least 500 ms apart; how far apart they are is the timer's and the
  clock's doing, and whether a span is active the tracing SDK's.
\<close>

lemma simulate_latency_500_records:
  assumes "method req = ''GET''"
    and "query_ms req = Some ''500'' \<or> query_ms req = None"
  shows "\<exists>st'. serve_simulate_latency req start now sp sp' st = Some st'
       \<and> httpRequestDuration st' =
           (httpRequestDuration st)
             ([(''method'', ''GET''), (''route'', ''/simulate-latency''), (''status_code'', ''200'')] :=
                httpRequestDuration st
                  [(''method'', ''GET''), (''route'', ''/simulate-latency''), (''status_code'', ''200'')]
                @ [real_of_int (now - start) / 1000000000])
       \<and> logger st' ! length (logger st) =
           \<lparr>level = ''info'', message = ''Simulating latency of 500ms'',
            meta = (case sp of
                      Some sc \<Rightarrow> [''trace_id'' \<mapsto> JStr (traceId sc), ''span_id'' \<mapsto> JStr (spanId sc)]
                    | None \<Rightarrow> Map.empty)\<rparr>"
    and "(1 / 2 \<le> real_of_int (now - start) / 1000000000) = (500000000 \<le> now - start)"
proof -
  from assms(2) have p: "parseInt_or (query_ms req) 500 = Num 500"
    by (auto simp: parseInt_or_500 parseInt_or_absent)
  show "\<exists>st'. serve_simulate_latency req start now sp sp' st = Some st'
       \<and> httpRequestDuration st' =
           (httpRequestDuration st)
             ([(''method'', ''GET''), (''route'', ''/simulate-latency''), (''status_code'', ''200'')] :=
                httpRequestDuration st
                  [(''method'', ''GET''), (''route'', ''/simulate-latency''), (''status_code'', ''200'')]
                @ [real_of_int (now - start) / 1000000000])
       \<and> logger st' ! length (logger st) =
           \<lparr>level = ''info'', message = ''Simulating latency of 500ms'',
            meta = (case sp of
                      Some sc \<Rightarrow> [''trace_id'' \<mapsto> JStr (traceId sc), ''span_id'' \<mapsto> JStr (spanId sc)]
                    | None \<Rightarrow> Map.empty)\<rparr>"
    using assms(1) p
    by (simp add: serve_simulate_latency_500 on_finish_duration on_finish_logger request_labels_def
          route_label_def js_String_200 logger_info_def log_js_appends caller_metadata_def nth_append
          split: option.splits)
  have "(500000000 \<le> real_of_int (now - start)) = (500000000 \<le> now - start)"
    by linarith
  then show "(1 / 2 \<le> real_of_int (now - start) / 1000000000) = (500000000 \<le> now - start)"
    by simp
qed

section \<open>The traces endpoint\<close>

lemma takeWhile_eq_replicate:
  "takeWhile (\<lambda>c. c = a) xs = replicate (length (takeWhile (\<lambda>c. c = a) xs)) a"
  by (induction xs) auto

lemma strip_trailing_slashes_decomp:
  "\<exists>k. base = strip_trailing_slashes base @ replicate k (CHR ''/'')"
proof -
  let ?P = "\<lambda>c. c = CHR ''/''"
  have "rev base = takeWhile ?P (rev base) @ dropWhile ?P (rev base)"
    by simp
  then have "base = rev (dropWhile ?P (rev base)) @ rev (takeWhile ?P (rev base))"
    by (metis rev_append rev_rev_ident)
  moreover have "rev (takeWhile ?P (rev base)) = replicate (length (takeWhile ?P (rev base))) (CHR ''/'')"
    by (metis takeWhile_eq_replicate rev_replicate)
  ultimately show ?thesis
    unfolding strip_trailing_slashes_def by metis
qed

lemma strip_trailing_slashes_no_slash: "\<not> suffix ''/'' (strip_trailing_slashes base)"
proof
  assume "suffix ''/'' (strip_trailing_slashes base)"
  then obtain zs where z: "rev (dropWhile (\<lambda>c. c = CHR ''/'') (rev base)) = zs @ ''/''"
    unfolding strip_trailing_slashes_def suffix_def by blast
  then have "dropWhile (\<lambda>c. c = CHR ''/'') (rev base) = CHR ''/'' # rev zs"
    by (metis rev_append rev_rev_ident rev_singleton_conv append_Cons append_Nil)
  then have d: "dropWhile (\<lambda>c. c = CHR ''/'') (rev base) \<noteq> []"
    and h: "hd (dropWhile (\<lambda>c. c = CHR ''/'') (rev base)) = CHR ''/''"
    by simp_all
  from hd_dropWhile [OF d] h show False
    by simp
qed

lemma ends_in_traces_resolve: "ends_in_traces (resolveTracesUrl t b)"
  by (simp add: resolveTracesUrl_def Let_def ends_in_traces_def suffix_def)

lemma resolve_nonempty: "resolveTracesUrl t b \<noteq> []"
  using ends_in_traces_resolve [of t b] by (auto simp: ends_in_traces_def suffix_def)

lemma no_slash_after_append: "\<not> suffix ''/v1/traces/'' (s @ ''/v1/traces'')"
  by (auto simp: suffix_def)

lemma resolve_of_matching:
  "ends_in_traces base \<Longrightarrow> base \<noteq> [] \<Longrightarrow> resolveTracesUrl (Some base) b = base"
  by (simp add: resolveTracesUrl_def otlp_base_def js_or_def)

lemma resolve_of_matching_otlp:
  "ends_in_traces base \<Longrightarrow> base \<noteq> [] \<Longrightarrow> resolveTracesUrl None (Some base) = base"
  by (simp add: resolveTracesUrl_def otlp_base_def js_or_def)

lemma otlp_base_examples:
  "otlp_base None (Some ''http://collector:4318//'') = ''http://collector:4318//''"
  "otlp_base (Some ''http://jaeger:4318/v1/traces/'') None = ''http://jaeger:4318/v1/traces/''"
  by (simp_all add: otlp_base_def js_or_def)

text \<open>
  Claim C10, as amended. The base is the first of the two environment variables that is
  set and not empty, and \<open>http://jaeger:4318\<close> when neither is. For every base,
  \<open>resolveTracesUrl\<close> returns a URL ending in \<open>/v1/traces\<close> or in \<open>/v1/traces/\<close>, the latter
  exactly when the base itself ends in \<open>/v1/traces/\<close>. A base ending in \<open>/v1/traces\<close> or in
  \<open>/v1/traces/\<close> is returned as it is; any other base is returned with all its trailing
  slashes removed and \<open>/v1/traces\<close> appended. With neither variable set the result is
  \<open>http://jaeger:4318/v1/traces\<close>. Resolving the result again, given as either variable,
  returns it unchanged.
\<close>

theorem resolveTracesUrl_normalises:
  "(suffix ''/v1/traces'' (resolveTracesUrl t b) \<or> suffix ''/v1/traces/'' (resolveTracesUrl t b))
   \<and> (suffix ''/v1/traces/'' (resolveTracesUrl t b) = suffix ''/v1/traces/'' (otlp_base t b))
   \<and> (suffix ''/v1/traces'' (otlp_base t b) \<or> suffix ''/v1/traces/'' (otlp_base t b)
        \<longrightarrow> resolveTracesUrl t b = otlp_base t b)
   \<and> (\<not> suffix ''/v1/traces'' (otlp_base t b) \<and> \<not> suffix ''/v1/traces/'' (otlp_base t b)
        \<longrightarrow> (\<exists>stem k. otlp_base t b = stem @ replicate k (CHR ''/'') \<and> \<not> suffix ''/'' stem
                      \<and> resolveTracesUrl t b = stem @ ''/v1/traces''))
   \<and> (\<not> truthy t \<and> \<not> truthy b
        \<longrightarrow> otlp_base t b = ''http://jaeger:4318''
            \<and> resolveTracesUrl t b = ''http://jaeger:4318/v1/traces'')
   \<and> resolveTracesUrl (Some (resolveTracesUrl t b)) b' = resolveTracesUrl t b
   \<and> resolveTracesUrl None (Some (resolveTracesUrl t b)) = resolveTracesUrl t b"
proof (intro conjI impI)
  show "suffix ''/v1/traces'' (resolveTracesUrl t b) \<or> suffix ''/v1/traces/'' (resolveTracesUrl t b)"
    using ends_in_traces_resolve [of t b] by (simp add: ends_in_traces_def)
  show "suffix ''/v1/traces/'' (resolveTracesUrl t b) = suffix ''/v1/traces/'' (otlp_base t b)"
    by (simp add: resolveTracesUrl_def Let_def ends_in_traces_def no_slash_after_append)
  show "resolveTracesUrl t b = otlp_base t b"
    if "suffix ''/v1/traces'' (otlp_base t b) \<or> suffix ''/v1/traces/'' (otlp_base t b)"
    using that by (simp add: resolveTracesUrl_def Let_def ends_in_traces_def)
  show "\<exists>stem k. otlp_base t b = stem @ replicate k (CHR ''/'') \<and> \<not> suffix ''/'' stem
          \<and> resolveTracesUrl t b = stem @ ''/v1/traces''"
    if n: "\<not> suffix ''/v1/traces'' (otlp_base t b) \<and> \<not> suffix ''/v1/traces/'' (otlp_base t b)"
  proof -
    obtain k where "otlp_base t b = strip_trailing_slashes (otlp_base t b) @ replicate k (CHR ''/'')"
      using strip_trailing_slashes_decomp by blast
    moreover have "resolveTracesUrl t b = strip_trailing_slashes (otlp_base t b) @ ''/v1/traces''"
      using n by (simp add: resolveTracesUrl_def Let_def ends_in_traces_def)
    ultimately show ?thesis
      using strip_trailing_slashes_no_slash by blast
  qed
  show "otlp_base t b = ''http://jaeger:4318''" if "\<not> truthy t \<and> \<not> truthy b"
    using that by (cases t; cases b) (simp_all add: otlp_base_def js_or_def)
  show "resolveTracesUrl t b = ''http://jaeger:4318/v1/traces''" if "\<not> truthy t \<and> \<not> truthy b"
  proof -
    have "otlp_base t b = ''http://jaeger:4318''"
      using that by (cases t; cases b) (simp_all add: otlp_base_def js_or_def)
    then show ?thesis
      by (simp add: resolveTracesUrl_def Let_def ends_in_traces_def strip_trailing_slashes_def suffix_to_prefix)
  qed
  show "resolveTracesUrl (Some (resolveTracesUrl t b)) b' = resolveTracesUrl t b"
    by (rule resolve_of_matching [OF ends_in_traces_resolve resolve_nonempty])
  show "resolveTracesUrl None (Some (resolveTracesUrl t b)) = resolveTracesUrl t b"
    by (rule resolve_of_matching_otlp [OF ends_in_traces_resolve resolve_nonempty])
qed

theorem resolveTracesUrl_normalises_witness:
  "resolveTracesUrl None None = ''http://jaeger:4318/v1/traces''
   \<and> resolveTracesUrl (Some ''http://jaeger:4318/v1/traces/'') None = ''http://jaeger:4318/v1/traces/''
   \<and> (\<exists>stem k. ''http://collector:4318//'' = stem @ replicate k (CHR ''/'') \<and> \<not> suffix ''/'' stem
         \<and> resolveTracesUrl None (Some ''http://collector:4318//'') = stem @ ''/v1/traces'')"
proof -
  have a: "\<not> truthy None \<and> \<not> truthy None"
    by simp
  have b: "suffix ''/v1/traces'' (otlp_base (Some ''http://jaeger:4318/v1/traces/'') None)
           \<or> suffix ''/v1/traces/'' (otlp_base (Some ''http://jaeger:4318/v1/traces/'') None)"
    by (simp add: otlp_base_examples suffix_to_prefix)
  have c: "\<not> suffix ''/v1/traces'' (otlp_base None (Some ''http://collector:4318//''))
           \<and> \<not> suffix ''/v1/traces/'' (otlp_base None (Some ''http://collector:4318//''))"
    by (simp add: otlp_base_examples suffix_to_prefix)
  have 1: "resolveTracesUrl None None = ''http://jaeger:4318/v1/traces''"
    using resolveTracesUrl_normalises [of None None] a by blast
  have 2: "resolveTracesUrl (Some ''http://jaeger:4318/v1/traces/'') None =
             otlp_base (Some ''http://jaeger:4318/v1/traces/'') None"
    using resolveTracesUrl_normalises [of "Some ''http://jaeger:4318/v1/traces/''" None] b by blast
  have 3: "\<exists>stem k. otlp_base None (Some ''http://collector:4318//'') = stem @ replicate k (CHR ''/'')
             \<and> \<not> suffix ''/'' stem
             \<and> resolveTracesUrl None (Some ''http://collector:4318//'') = stem @ ''/v1/traces''"
    using resolveTracesUrl_normalises [of None "Some ''http://collector:4318//''"] c by blast
  from 1 2 3 show ?thesis
    by (simp add: otlp_base_examples)
qed

text \<open>
  Claim C10 as stated fails for a base that ends in \<open>/v1/traces/\<close>: it is returned as it is,
  and the result does not end in \<open>/v1/traces\<close>.
\<close>

theorem resolveTracesUrl_trailing_slash_kept:
  "resolveTracesUrl (Some ''http://jaeger:4318/v1/traces/'') None = ''http://jaeger:4318/v1/traces/''
   \<and> \<not> suffix ''/v1/traces'' (resolveTracesUrl (Some ''http://jaeger:4318/v1/traces/'') None)"
  by code_simp

end
